theory Spec2Isabelle
  imports Main "HOL-Library.Sublist" "HOL-Library.Word"
begin

section \<open>Rendered output\<close>

text \<open>
  A JavaScript string is a sequence of UTF-16 code units.  \<open>js\<close> gives the string of an
  ASCII literal.
\<close>

type_synonym code_unit = "16 word"

type_synonym jsstring = "code_unit list"

definition js :: "string \<Rightarrow> jsstring" where
  "js s = map (\<lambda>c. of_nat (of_char c)) s"

text \<open>
  What a component returns and what ends up in the document: an element with a tag, its
  attributes and its children, or a text node.  The JSX \<^verbatim>\<open><div></div>\<close> is the element
  \<open>div\<close> with no attribute and no child.
\<close>

datatype node = Element string "(string \<times> jsstring) list" "node list" | TextNode jsstring

datatype jsval = JStr string | JObj "(string \<times> jsval) list"

type_synonym props = "(string \<times> jsval) list"

text \<open>
  The mutable environment a component could read or write while it renders (module-level
  variables, hook state): a component takes it and returns it, so that a side effect
  would be visible as a change of it.
\<close>

type_synonym globals = "(string \<times> string) list"

type_synonym path = "string list"

datatype error =
    ElementNotFound jsstring
  | MultipleElementsFound jsstring
  | AssertionFailed
  | Thrown jsstring
  | ExportNotFound string
  | ModuleNotFound path
  | EPRIVATE

type_synonym component = "props \<Rightarrow> globals \<Rightarrow> (error + node) \<times> globals"

section \<open>The component, lib/components/navbar/navbar.tsx\<close>

text \<open>
  \<^verbatim>\<open>export default function Navbar() { return ( <div></div> ); }\<close>

  The function declares no parameter, so the props React passes are dropped; its body
  reads and writes nothing and has no \<^verbatim>\<open>throw\<close>.
\<close>

definition Navbar :: component where
  "Navbar p g = (Inr (Element ''div'' [] []), g)"

section \<open>The test, lib/components/navbar/navbar.spec.tsx\<close>

text \<open>
  An HTML document stores the names of elements and attributes in lower case, whatever
  the case they were created with.
\<close>

definition ascii_lower :: "char \<Rightarrow> char" where
  "ascii_lower c =
     (case map_of (zip ''ABCDEFGHIJKLMNOPQRSTUVWXYZ'' ''abcdefghijklmnopqrstuvwxyz'') c of
        None \<Rightarrow> c
      | Some l \<Rightarrow> l)"

fun mount :: "node \<Rightarrow> node" where
  "mount (TextNode t) = TextNode t"
| "mount (Element tag attrs cs) =
     Element (map ascii_lower tag) (map (\<lambda>(k, v). (map ascii_lower k, v)) attrs) (map mount cs)"

text \<open>
  \<^verbatim>\<open>render(ui)\<close> of the testing library mounts the element into a fresh container
  \<open>div\<close> appended to the document body, and binds the queries to the body.  The test
  passes \<^verbatim>\<open><Navbar />\<close>: the component with the empty props.
\<close>

definition document :: "node \<Rightarrow> node" where
  "document n = Element ''body'' [] [Element ''div'' [] [mount n]]"

definition render :: "component \<Rightarrow> globals \<Rightarrow> (error + node) \<times> globals" where
  "render ui g =
     (case ui [] g of
        (Inl e, g') \<Rightarrow> (Inl e, g')
      | (Inr n, g') \<Rightarrow> (Inr (document n), g'))"

text \<open>The element itself and the elements below it, in document order.\<close>

fun elements :: "node \<Rightarrow> node list" where
  "elements (TextNode t) = []"
| "elements (Element tag attrs cs) = Element tag attrs cs # concat (map elements cs)"

text \<open>
  The text of a node as the text queries read it: the text nodes that are its own
  children, joined; for an \<open>input\<close> whose type is submit, button or reset (in any case of
  the letters), its value.
\<close>

definition lower_unit :: "code_unit \<Rightarrow> code_unit" where
  "lower_unit c = (if 0x41 \<le> c \<and> c \<le> 0x5A then c + 0x20 else c)"

fun child_text :: "node \<Rightarrow> jsstring" where
  "child_text (TextNode t) = t"
| "child_text (Element tag attrs cs) = []"

fun getNodeText :: "node \<Rightarrow> jsstring" where
  "getNodeText (TextNode t) = t"
| "getNodeText (Element tag attrs cs) =
     (if tag = ''input'' \<and>
         map_option (map lower_unit) (map_of attrs ''type'')
           \<in> {Some (js ''submit''), Some (js ''button''), Some (js ''reset'')}
      then (case map_of attrs ''value'' of None \<Rightarrow> [] | Some v \<Rightarrow> v)
      else concat (map child_text cs))"

text \<open>
  The default normalizer: \<^verbatim>\<open>text.trim().replace(/\s+/g, ' ')\<close>.  White space is what
  JavaScript takes for it: tab, line feed, vertical tab, form feed, carriage return,
  space, no-break space, the Unicode space separators, the line and paragraph
  separators, and the byte order mark.
\<close>

definition is_space :: "code_unit \<Rightarrow> bool" where
  "is_space c =
     (c \<in> {0x0009, 0x000A, 0x000B, 0x000C, 0x000D, 0x0020, 0x00A0, 0x1680,
            0x2028, 0x2029, 0x202F, 0x205F, 0x3000, 0xFEFF}
      \<or> (0x2000 \<le> c \<and> c \<le> 0x200A))"

definition trim :: "jsstring \<Rightarrow> jsstring" where
  "trim s = rev (dropWhile is_space (rev (dropWhile is_space s)))"

fun collapse :: "jsstring \<Rightarrow> jsstring" where
  "collapse [] = []"
| "collapse [c] = [if is_space c then 0x20 else c]"
| "collapse (c # d # cs) =
     (if is_space c then (if is_space d then collapse (d # cs) else 0x20 # collapse (d # cs))
      else c # collapse (d # cs))"

definition normalizer :: "jsstring \<Rightarrow> jsstring" where
  "normalizer s = collapse (trim s)"

definition ignored :: "node \<Rightarrow> bool" where
  "ignored n = (case n of Element tag attrs cs \<Rightarrow> tag = ''script'' \<or> tag = ''style'' | TextNode t \<Rightarrow> False)"

text \<open>
  \<^verbatim>\<open>queryAllByText\<close> with a string matcher and the default options: the elements that are
  not \<open>script\<close> or \<open>style\<close> and whose normalized text is exactly the string.
  \<^verbatim>\<open>getByText\<close> throws when no element matches and when more than one does.
\<close>

definition queryAllByText :: "node \<Rightarrow> jsstring \<Rightarrow> node list" where
  "queryAllByText container text =
     filter (\<lambda>n. normalizer (getNodeText n) = text) (filter (\<lambda>n. \<not> ignored n) (elements container))"

definition getByText :: "node \<Rightarrow> jsstring \<Rightarrow> error + node" where
  "getByText container text =
     (case queryAllByText container text of
        [] \<Rightarrow> Inl (ElementNotFound text)
      | [n] \<Rightarrow> Inr n
      | n # m # ns \<Rightarrow> Inl (MultipleElementsFound text))"

text \<open>An element is an object, and every object is truthy.\<close>

definition toBeTruthy :: "node \<Rightarrow> bool" where
  "toBeTruthy n = True"

datatype outcome = Passed | Failed error

text \<open>
  \<^verbatim>\<open>const { getByText } = render(<Navbar />); expect(getByText('Navbar')).toBeTruthy();\<close>

  The body of the test, for the component under test; an exception of any step fails
  the test.
\<close>

definition renders :: "component \<Rightarrow> globals \<Rightarrow> outcome" where
  "renders ui g =
     (case fst (render ui g) of
        Inl e \<Rightarrow> Failed e
      | Inr doc \<Rightarrow>
          (case getByText doc (js ''Navbar'') of
             Inl e \<Rightarrow> Failed e
           | Inr n \<Rightarrow> if toBeTruthy n then Passed else Failed AssertionFailed))"

definition Navbar_test :: "globals \<Rightarrow> outcome" where
  "Navbar_test g = renders Navbar g"

section \<open>What the description of the test speaks of\<close>

text \<open>All the text of a tree, as \<^verbatim>\<open>textContent\<close> gives it.\<close>

fun textContent :: "node \<Rightarrow> jsstring" where
  "textContent (TextNode t) = t"
| "textContent (Element tag attrs cs) = concat (map textContent cs)"

text \<open>
  The rendered output contains a text when the text occurs in the text of the rendered
  document; nothing is contained in a rendering that threw.
\<close>

definition text_present :: "error + node \<Rightarrow> jsstring \<Rightarrow> bool" where
  "text_present out text = (case out of Inl e \<Rightarrow> False | Inr doc \<Rightarrow> sublist text (textContent doc))"

text \<open>
  The words of a text are its maximal runs of characters that are not white space; the
  normal form of a text is its words with one space between two of them.
\<close>

function spec_words :: "jsstring \<Rightarrow> jsstring list" where
  "spec_words s =
     (case dropWhile is_space s of
        [] \<Rightarrow> []
      | c # cs \<Rightarrow> (c # takeWhile (\<lambda>x. \<not> is_space x) cs) # spec_words (dropWhile (\<lambda>x. \<not> is_space x) cs))"
  by pat_completeness auto
termination
proof (relation "measure length")
  show "wf (measure length)" by simp
next
  fix s :: jsstring and c cs
  assume d: "dropWhile is_space s = c # cs"
  have "length (dropWhile (\<lambda>x. \<not> is_space x) cs) \<le> length cs"
    by (rule length_dropWhile_le)
  moreover have "length (c # cs) \<le> length s"
    using length_dropWhile_le [of is_space s] d by simp
  ultimately show "(dropWhile (\<lambda>x. \<not> is_space x) cs, s) \<in> measure length"
    by simp
qed

declare spec_words.simps [simp del]

fun spec_unwords :: "jsstring list \<Rightarrow> jsstring" where
  "spec_unwords [] = []"
| "spec_unwords [w] = w"
| "spec_unwords (w # v # ws) = w @ 0x20 # spec_unwords (v # ws)"

text \<open>A text ends clean when it does not end in white space.\<close>

definition ends_clean :: "jsstring \<Rightarrow> bool" where
  "ends_clean u = (u = [] \<or> \<not> is_space (last u))"

definition spec_normal_text :: "jsstring \<Rightarrow> jsstring" where
  "spec_normal_text s = spec_unwords (spec_words s)"

text \<open>
  An element carries a text when it is not a \<open>script\<close> or \<open>style\<close> element and the normal
  form of its own text is the text.  Its own text is the text of the text nodes directly
  below it, in their order; for an \<open>input\<close> of type submit, button or reset it is the
  value of the input.
\<close>

definition button_like :: "string \<Rightarrow> (string \<times> jsstring) list \<Rightarrow> bool" where
  "button_like tag attrs =
     (tag = ''input'' \<and>
      (case map_of attrs ''type'' of
         None \<Rightarrow> False
       | Some ty \<Rightarrow> map lower_unit ty = js ''submit'' \<or> map lower_unit ty = js ''button''
                    \<or> map lower_unit ty = js ''reset''))"

fun own_text :: "node \<Rightarrow> jsstring" where
  "own_text (TextNode t) = t"
| "own_text (Element tag attrs cs) =
     (if button_like tag attrs then (case map_of attrs ''value'' of None \<Rightarrow> [] | Some v \<Rightarrow> v)
      else concat [t. TextNode t \<leftarrow> cs])"

fun carries :: "node \<Rightarrow> jsstring \<Rightarrow> bool" where
  "carries (TextNode t) text = False"
| "carries (Element tag attrs cs) text =
     (tag \<noteq> ''script'' \<and> tag \<noteq> ''style'' \<and> spec_normal_text (own_text (Element tag attrs cs)) = text)"

definition carriers :: "node \<Rightarrow> jsstring \<Rightarrow> node list" where
  "carriers doc text = filter (\<lambda>e. carries e text) (elements doc)"

section \<open>Other components the test could be given\<close>

text \<open>
  \<^verbatim>\<open><div><p>Navbar</p><p>Navbar</p></div>\<close>, a heading whose text has white space
  around the word (the last character a no-break space), a \<open>div\<close> whose text is split by
  an element, a \<open>div\<close> with a longer text, and a component that throws.
\<close>

definition two_paragraphs :: component where
  "two_paragraphs p g =
     (Inr (Element ''div'' []
            [Element ''p'' [] [TextNode (js ''Navbar'')],
             Element ''p'' [] [TextNode (js ''Navbar'')]]), g)"

definition spaced_heading :: component where
  "spaced_heading p g = (Inr (Element ''H1'' [] [TextNode (js ''  Navbar'' @ [0x00A0])]), g)"

definition split_text :: component where
  "split_text p g =
     (Inr (Element ''div'' []
            [TextNode (js ''Nav''), Element ''b'' [] [TextNode (js ''x'')], TextNode (js ''bar'')]), g)"

definition longer_text :: component where
  "longer_text p g = (Inr (Element ''div'' [] [TextNode (js ''Navbar menu'')]), g)"

definition throwing :: component where
  "throwing p g = (Inl (Thrown (js ''boom'')), g)"

section \<open>Paths and module resolution\<close>

text \<open>
  A path is the list of its segments.  \<^verbatim>\<open>resolve(base, rel)\<close> walks the segments of
  \<open>rel\<close> from \<open>base\<close>: \<open>.\<close> and an empty segment stay, \<open>..\<close> goes up, a name goes down.
  The same walk resolves a relative import specifier from the directory of the importing
  file; a module is named by its path without the extension.
\<close>

fun segments :: "string \<Rightarrow> string list" where
  "segments [] = [[]]"
| "segments (c # cs) =
     (if c = CHR ''/'' then [] # segments cs
      else (case segments cs of [] \<Rightarrow> [[c]] | s # ss \<Rightarrow> (c # s) # ss))"

definition step :: "path \<Rightarrow> string \<Rightarrow> path" where
  "step acc seg =
     (if seg = [] \<or> seg = ''.'' then acc
      else if seg = ''..'' then butlast acc
      else acc @ [seg])"

definition resolve :: "path \<Rightarrow> string \<Rightarrow> path" where
  "resolve base rel = foldl step base (segments rel)"

text \<open>
  A module as far as its bindings go: the default imports (local name, specifier), the
  directory the specifiers are relative to, and the named exports (public name, local
  name).
\<close>

record es_module =
  directory :: path
  default_imports :: "(string \<times> string) list"
  named_exports :: "(string \<times> string) list"

definition binding :: "es_module \<Rightarrow> string \<Rightarrow> path option" where
  "binding m local = map_option (resolve (directory m)) (map_of (default_imports m) local)"

text \<open>The component tree of the tutorial: the module that default-exports a component.\<close>

definition lib_components :: "(path \<times> component) list" where
  "lib_components = [([''lib'', ''components'', ''navbar'', ''navbar''], Navbar)]"

section \<open>The export manifest, lib/index.ts\<close>

text \<open>
  \<^verbatim>\<open>import Navbar from './components/navbar/navbar'; export { Navbar };\<close>
\<close>

definition index_ts :: es_module where
  "index_ts = \<lparr> directory = [''lib''],
                default_imports = [(''Navbar'', ''./components/navbar/navbar'')],
                named_exports = [(''Navbar'', ''Navbar'')] \<rparr>"

text \<open>The public names with the module each one stands for.\<close>

definition export_manifest :: "es_module \<Rightarrow> (string \<times> path) list" where
  "export_manifest m =
     List.map_filter (\<lambda>(public, local). map_option (Pair public) (binding m local)) (named_exports m)"

text \<open>What a consumer gets for \<^verbatim>\<open>import { name } from 'dilo-library'\<close>.\<close>

definition import_named :: "string \<Rightarrow> error + component" where
  "import_named name =
     (case map_of (export_manifest index_ts) name of
        None \<Rightarrow> Inl (ExportNotFound name)
      | Some p \<Rightarrow> (case map_of lib_components p of
                    None \<Rightarrow> Inl (ModuleNotFound p)
                  | Some c \<Rightarrow> Inr c))"

section \<open>The catalog entry, lib/components/navbar/navbar.stories.ts\<close>

text \<open>
  \<^verbatim>\<open>import Navbar from "./navbar";
  const meta = { title: "Navbar Example", component: Navbar };
  export default meta;
  export const Default: Story = {};\<close>

  A story is an object literal; the only field the catalog reads to render it here is
  \<open>args\<close>.
\<close>

definition navbar_stories :: es_module where
  "navbar_stories = \<lparr> directory = [''lib'', ''components'', ''navbar''],
                      default_imports = [(''Navbar'', ''./navbar'')],
                      named_exports = [(''Default'', ''Default'')] \<rparr>"

record catalog_meta =
  title :: string
  component :: "path option"

definition meta :: catalog_meta where
  "meta = \<lparr> title = ''Navbar Example'', component = binding navbar_stories ''Navbar'' \<rparr>"

type_synonym story = "(string \<times> jsval) list"

definition Default :: story where
  "Default = []"

text \<open>Every named export of the stories file is a variant of the entry.\<close>

definition navbar_stories_consts :: "(string \<times> story) list" where
  "navbar_stories_consts = [(''Default'', Default)]"

definition stories :: "(string \<times> story) list" where
  "stories =
     List.map_filter (\<lambda>(public, local). map_option (Pair public) (map_of navbar_stories_consts local))
       (named_exports navbar_stories)"

definition story_args :: "story \<Rightarrow> props" where
  "story_args s = (case map_of s ''args'' of Some (JObj a) \<Rightarrow> a | _ \<Rightarrow> [])"

text \<open>The catalog renders a story by calling the component of the entry with the story's args.\<close>

definition render_story :: "catalog_meta \<Rightarrow> story \<Rightarrow> globals \<Rightarrow> (error + node) \<times> globals" where
  "render_story m s g =
     (case component m of
        None \<Rightarrow> (Inl (ExportNotFound ''component''), g)
      | Some p \<Rightarrow> (case map_of lib_components p of
                    None \<Rightarrow> (Inl (ModuleNotFound p), g)
                  | Some c \<Rightarrow> c (story_args s) g))"

section \<open>The build configuration, vite.config.ts\<close>

record lib_options =
  entry :: path
  name :: string
  fileName :: "string \<Rightarrow> string"
  formats :: "string list option"

record rollup_options =
  external :: "string list"
  output_globals :: "(string \<times> string) list"

record build_options =
  lib :: lib_options
  rollupOptions :: rollup_options
  sourcemap :: bool
  emptyOutDir :: bool

record dts_options =
  rollupTypes :: bool

datatype plugin = react | dts dts_options | cssInjectedByJsPlugin

record test_options =
  test_globals :: bool
  environment :: string
  setupFiles :: "string list"

record user_config =
  build :: build_options
  plugins :: "plugin list"
  test :: test_options
  resolve_alias :: "(string \<times> path) list"
  css_postcss_plugins :: "string list"

text \<open>
  The object passed to \<^verbatim>\<open>defineConfig\<close>, as a function of \<^verbatim>\<open>__dirname\<close>, the directory
  of the configuration file.  The file gives no \<^verbatim>\<open>formats\<close> key.
\<close>

definition vite_config :: "path \<Rightarrow> user_config" where
  "vite_config dirname =
     \<lparr> build =
         \<lparr> lib = \<lparr> entry = resolve dirname ''./lib/index.ts'',
                   name = ''react-beautiful-timeline'',
                   fileName = (\<lambda>format. ''index.'' @ format @ ''.js''),
                   formats = None \<rparr>,
           rollupOptions =
             \<lparr> external = [''react'', ''react-dom'', ''tailwindcss''],
               output_globals = [(''react'', ''React''), (''react-dom'', ''ReactDOM''),
                                 (''tailwindcss'', ''tailwindcss'')] \<rparr>,
           sourcemap = True,
           emptyOutDir = True \<rparr>,
       plugins = [react, dts \<lparr> rollupTypes = True \<rparr>, cssInjectedByJsPlugin],
       test = \<lparr> test_globals = True, environment = ''jsdom'',
                setupFiles = [''./lib/setupTests.ts''] \<rparr>,
       resolve_alias = [(''@'', resolve dirname ''lib'')],
       css_postcss_plugins = [''tailwindcss''] \<rparr>"

text \<open>
  The bundler builds a library with one entry in the formats \<open>es\<close> and \<open>umd\<close> when the
  configuration names none, and calls \<^verbatim>\<open>fileName\<close> with each format.
\<close>

definition output_formats :: "user_config \<Rightarrow> string list" where
  "output_formats cfg = (case formats (lib (build cfg)) of None \<Rightarrow> [''es'', ''umd''] | Some fs \<Rightarrow> fs)"

definition output_file_names :: "user_config \<Rightarrow> string list" where
  "output_file_names cfg = map (fileName (lib (build cfg))) (output_formats cfg)"

section \<open>The package manifest, package.json\<close>

record package_exports =
  exports_import :: string
  exports_require :: string
  exports_types :: string

record package_manifest =
  pkg_name :: string
  pkg_private :: bool
  pkg_version :: string
  pkg_type :: string
  pkg_main :: string
  pkg_module :: string
  pkg_types :: string
  pkg_files :: "string list"
  pkg_exports :: "(string \<times> package_exports) list"
  pkg_scripts :: "(string \<times> string) list"
  pkg_peerDependencies :: "(string \<times> string) list"
  pkg_devDependencies :: "(string \<times> string) list"

definition package_json :: package_manifest where
  "package_json =
     \<lparr> pkg_name = ''dilo-library'',
       pkg_private = True,
       pkg_version = ''0.0.0'',
       pkg_type = ''module'',
       pkg_main = ''./dist/index.umd.js'',
       pkg_module = ''./dist/index.es.js'',
       pkg_types = ''./dist/index.d.ts'',
       pkg_files = [''dist''],
       pkg_exports = [(''.'', \<lparr> exports_import = ''./dist/index.es.js'',
                                exports_require = ''./dist/index.umd.js'',
                                exports_types = ''./dist/index.d.ts'' \<rparr>)],
       pkg_scripts = [(''dev'', ''vite''), (''build'', ''tsc && vite build''),
                      (''lint'', ''eslint . --ext ts,tsx --report-unused-disable-directives --max-warnings 0''),
                      (''preview'', ''vite preview''), (''storybook'', ''storybook dev -p 6006''),
                      (''build-storybook'', ''storybook build''), (''test'', ''vitest'')],
       pkg_peerDependencies = [(''react'', ''^18.3.1''), (''react-dom'', ''^18.3.1''),
                               (''tailwindcss'', ''^3.4.4'')],
       pkg_devDependencies =
         [(''@chromatic-com/storybook'', ''^1.5.0''), (''@storybook/addon-essentials'', ''^8.1.6''),
          (''@storybook/addon-interactions'', ''^8.1.6''), (''@storybook/addon-links'', ''^8.1.6''),
          (''@storybook/addon-onboarding'', ''^8.1.6''), (''@storybook/blocks'', ''^8.1.6''),
          (''@storybook/react'', ''^8.1.6''), (''@storybook/react-vite'', ''^8.1.6''),
          (''@storybook/test'', ''^8.1.6''), (''@testing-library/jest-dom'', ''^6.4.5''),
          (''@testing-library/react'', ''^16.0.0''), (''@types/jest'', ''^29.5.12''),
          (''@types/react'', ''^18.2.66''), (''@types/react-dom'', ''^18.2.22''),
          (''@typescript-eslint/eslint-plugin'', ''^7.2.0''), (''@typescript-eslint/parser'', ''^7.2.0''),
          (''@vitejs/plugin-react'', ''^4.2.1''), (''@vitejs/plugin-react-swc'', ''^3.7.0''),
          (''autoprefixer'', ''^10.4.19''), (''eslint'', ''^8.57.0''),
          (''eslint-plugin-react-hooks'', ''^4.6.0''), (''eslint-plugin-react-refresh'', ''^0.4.6''),
          (''eslint-plugin-storybook'', ''^0.8.0''), (''jsdom'', ''^24.1.0''),
          (''postcss'', ''^8.4.38''), (''react'', ''^18.3.1''),
          (''react-dom'', ''^18.3.1''), (''storybook'', ''^8.1.6''),
          (''tailwindcss'', ''^3.4.4''), (''typescript'', ''^5.2.2''),
          (''vite'', ''^5.2.0''), (''vite-plugin-css-injected-by-js'', ''^3.5.1''),
          (''vite-plugin-dts'', ''^3.9.1''), (''vitest'', ''^1.6.0'')] \<rparr>"

text \<open>
  \<^verbatim>\<open>npm publish\<close> refuses a package whose manifest says \<^verbatim>\<open>"private": true\<close>; otherwise
  it publishes the name at the version.
\<close>

definition npm_publish :: "package_manifest \<Rightarrow> error + string \<times> string" where
  "npm_publish pkg = (if pkg_private pkg then Inl EPRIVATE else Inr (pkg_name pkg, pkg_version pkg))"

text \<open>The shell commands of the instructions in README.md, in their order.\<close>

definition readme_commands :: "string list" where
  "readme_commands =
     [''pnpm create vite'',
      ''cd dilo-library'',
      ''pnpm install'',
      ''pnpm add -D tailwindcss postcss autoprefixer'',
      ''npx tailwindcss init -p'',
      ''pnpm dlx @storybook/cli@latest init'',
      ''pnpm add -D vitest @types/jest @testing-library/jest-dom @testing-library/react jsdom'',
      ''pnpm add -D @vitejs/plugin-react-swc vite-plugin-dts vite-plugin-css-injected-by-js'',
      ''pnpm add -D react react-dom'',
      ''pnpm storybook'',
      ''pnpm vitest'',
      ''pnpm run build'',
      ''npm publish'']"

section \<open>Evaluations shared by the results\<close>

lemma resolve_lib_index: "resolve d ''./lib/index.ts'' = d @ [''lib'', ''index.ts'']"
  by (simp add: resolve_def step_def)

lemma document_empty_div:
  "document (Element ''div'' [] []) = Element ''body'' [] [Element ''div'' [] [Element ''div'' [] []]]"
  by (simp add: document_def ascii_lower_def)

lemma render_Navbar:
  "render Navbar g = (Inr (Element ''body'' [] [Element ''div'' [] [Element ''div'' [] []]]), g)"
  by (simp add: render_def Navbar_def document_empty_div)

lemma normalizer_empty: "normalizer [] = []"
  by (simp add: normalizer_def trim_def)

lemma query_Navbar:
  "queryAllByText (Element ''body'' [] [Element ''div'' [] [Element ''div'' [] []]]) (js ''Navbar'') = []"
  by (simp add: queryAllByText_def normalizer_empty js_def)

subsection \<open>The normalizer gives the normal form\<close>

lemma collapse_nonspace: "\<not> is_space c \<Longrightarrow> collapse (c # cs) = c # collapse cs"
  by (cases cs) simp_all

lemma collapse_space: "is_space c \<Longrightarrow> collapse (c # cs) = 0x20 # collapse (dropWhile is_space cs)"
  by (induction cs arbitrary: c) simp_all

lemma collapse_word:
  "\<forall>x \<in> set w. \<not> is_space x \<Longrightarrow> collapse (w @ r) = w @ collapse r"
  by (induction w) (simp_all add: collapse_nonspace)

lemma spec_words_Nil: "dropWhile is_space s = [] \<Longrightarrow> spec_words s = []"
  by (simp add: spec_words.simps del: dropWhile_eq_Nil_conv)

lemma spec_words_Cons:
  "dropWhile is_space s = c # cs \<Longrightarrow>
   spec_words s = (c # takeWhile (\<lambda>x. \<not> is_space x) cs) # spec_words (dropWhile (\<lambda>x. \<not> is_space x) cs)"
  by (simp add: spec_words.simps)

lemma spec_words_dropWhile: "spec_words (dropWhile is_space s) = spec_words s"
  by (simp add: spec_words.simps [of s] spec_words.simps [of "dropWhile is_space s"])

lemma spec_words_eq_Nil: "spec_words s = [] \<longleftrightarrow> dropWhile is_space s = []"
  by (cases "dropWhile is_space s") (simp_all add: spec_words_Nil spec_words_Cons)

lemma collapse_words:
  "ends_clean u \<Longrightarrow> collapse (dropWhile is_space u) = spec_unwords (spec_words u)"
proof (induction u rule: spec_words.induct)
  case (1 s)
  show ?case
  proof (cases "dropWhile is_space s")
    case Nil
    then show ?thesis by (simp add: spec_words_Nil del: dropWhile_eq_Nil_conv)
  next
    case (Cons c cs)
    let ?w = "takeWhile (\<lambda>x. \<not> is_space x) cs"
    let ?r = "dropWhile (\<lambda>x. \<not> is_space x) cs"
    have c: "\<not> is_space c"
      using Cons hd_dropWhile [of is_space s] by (metis list.sel(1) list.distinct(1))
    have w: "\<forall>x \<in> set (c # ?w). \<not> is_space x"
      using c by (auto dest: set_takeWhileD)
    have "collapse (c # cs) = collapse ((c # ?w) @ ?r)" by simp
    also have "\<dots> = (c # ?w) @ collapse ?r" using w by (rule collapse_word)
    finally have col: "collapse (dropWhile is_space s) = (c # ?w) @ collapse ?r"
      using Cons by (simp only:)
    have sw: "spec_words s = (c # ?w) # spec_words ?r"
      using Cons by (rule spec_words_Cons)
    show ?thesis
    proof (cases ?r)
      case Nil
      have "spec_words ?r = []" by (simp only: Nil spec_words_Nil dropWhile.simps)
      then have "spec_unwords (spec_words s) = c # ?w" by (simp only: sw spec_unwords.simps)
      moreover have "collapse (dropWhile is_space s) = c # ?w"
        by (simp only: col Nil collapse.simps append_Nil2)
      ultimately show ?thesis by (simp only:)
    next
      case r: (Cons d ds)
      have d: "is_space d"
        using r hd_dropWhile [of "\<lambda>x. \<not> is_space x" cs] by (metis list.sel(1) list.distinct(1))
      have "s \<noteq> []" using Cons by auto
      have suffix_s: "suffix ?r s"
        by (metis Cons suffix_dropWhile suffix_order.trans suffix_ConsI suffix_order.refl)
      have "last ?r = last s"
        using suffix_s r by (metis append_is_Nil_conv last_appendR list.distinct(1) suffix_def)
      then have clean: "ends_clean ?r"
        using \<open>ends_clean s\<close> \<open>s \<noteq> []\<close> by (simp add: ends_clean_def)
      have "?r \<noteq> []" by (simp only: r) simp
      then have "last ?r \<in> set ?r" by (rule last_in_set)
      moreover have "\<not> is_space (last ?r)"
        using clean \<open>?r \<noteq> []\<close> unfolding ends_clean_def by blast
      ultimately have nonsp: "dropWhile is_space ?r \<noteq> []"
        unfolding dropWhile_eq_Nil_conv by blast
      have ih: "collapse (dropWhile is_space ?r) = spec_unwords (spec_words ?r)"
        using "1.IH" [OF Cons clean] .
      have cr: "collapse ?r = 0x20 # collapse (dropWhile is_space ?r)"
        using collapse_space [OF d, of ds] d by (simp only: r dropWhile.simps if_True)
      obtain v vs where vs: "spec_words ?r = v # vs"
        using nonsp spec_words_eq_Nil [of ?r] by (cases "spec_words ?r") blast+
      have "spec_unwords (spec_words s) = (c # ?w) @ 0x20 # spec_unwords (spec_words ?r)"
        by (simp only: sw vs spec_unwords.simps)
      then show ?thesis by (simp only: col cr ih)
    qed
  qed
qed

lemma spec_words_trailing:
  "\<forall>x \<in> set z. is_space x \<Longrightarrow> spec_words (u @ z) = spec_words u"
proof (induction u rule: spec_words.induct)
  case (1 s)
  have zw: "spec_words z = []"
    using "1.prems" by (simp add: spec_words_eq_Nil)
  show ?case
  proof (cases "dropWhile is_space s")
    case Nil
    then have "\<forall>x \<in> set (s @ z). is_space x"
      using "1.prems" by auto
    then have "dropWhile is_space (s @ z) = []"
      unfolding dropWhile_eq_Nil_conv .
    then have "spec_words (s @ z) = []" by (rule spec_words_Nil)
    moreover have "spec_words s = []" using Nil by (rule spec_words_Nil)
    ultimately show ?thesis by (simp only:)
  next
    case (Cons c cs)
    let ?w = "takeWhile (\<lambda>x. \<not> is_space x) cs"
    let ?r = "dropWhile (\<lambda>x. \<not> is_space x) cs"
    have "\<not> (\<forall>x \<in> set s. is_space x)"
      using Cons unfolding dropWhile_eq_Nil_conv [symmetric] by simp
    then obtain x where "x \<in> set s" "\<not> is_space x" by blast
    then have "dropWhile is_space (s @ z) = dropWhile is_space s @ z"
      by (rule dropWhile_append1)
    then have dz: "dropWhile is_space (s @ z) = c # (cs @ z)"
      by (simp only: Cons append_Cons)
    have swz: "spec_words (s @ z) =
        (c # takeWhile (\<lambda>x. \<not> is_space x) (cs @ z)) # spec_words (dropWhile (\<lambda>x. \<not> is_space x) (cs @ z))"
      using dz by (rule spec_words_Cons)
    have sw: "spec_words s = (c # ?w) # spec_words ?r"
      using Cons by (rule spec_words_Cons)
    show ?thesis
    proof (cases "\<exists>x \<in> set cs. is_space x")
      case True
      then obtain y where y: "y \<in> set cs" "\<not> \<not> is_space y" by blast
      have a: "takeWhile (\<lambda>x. \<not> is_space x) (cs @ z) = ?w"
        using y by (rule takeWhile_append1)
      have b: "dropWhile (\<lambda>x. \<not> is_space x) (cs @ z) = ?r @ z"
        using y by (rule dropWhile_append1)
      have "spec_words (?r @ z) = spec_words ?r"
        using "1.IH" [OF Cons "1.prems"] .
      then show ?thesis by (simp only: swz sw a b)
    next
      case False
      then have all: "\<And>x. x \<in> set cs \<Longrightarrow> \<not> is_space x" by blast
      have a: "takeWhile (\<lambda>x. \<not> is_space x) (cs @ z) = cs @ takeWhile (\<lambda>x. \<not> is_space x) z"
        using all by (rule takeWhile_append2)
      have b: "dropWhile (\<lambda>x. \<not> is_space x) (cs @ z) = dropWhile (\<lambda>x. \<not> is_space x) z"
        using all by (rule dropWhile_append2)
      have c: "?w = cs" unfolding takeWhile_eq_all_conv using all by blast
      have d: "?r = []" unfolding dropWhile_eq_Nil_conv using all by blast
      have tz: "takeWhile (\<lambda>x. \<not> is_space x) z = []" and ddz: "dropWhile (\<lambda>x. \<not> is_space x) z = z"
        using "1.prems" by (cases z; simp)+
      have e: "spec_words [] = []" by (simp add: spec_words_Nil)
      show ?thesis by (simp only: swz sw a b c d tz ddz zw e append_Nil2)
    qed
  qed
qed

lemma normalizer_spec: "normalizer s = spec_normal_text s"
proof -
  let ?d = "dropWhile is_space s"
  let ?t = "trim s"
  have "?d = ?t @ rev (takeWhile is_space (rev ?d))"
    unfolding trim_def by (metis rev_append rev_rev_ident takeWhile_dropWhile_id)
  moreover have "\<forall>x \<in> set (rev (takeWhile is_space (rev ?d))). is_space x"
    by (auto dest: set_takeWhileD)
  ultimately obtain z where split: "?d = ?t @ z" and z: "\<forall>x \<in> set z. is_space x"
    by blast
  have clean: "ends_clean ?t"
    unfolding ends_clean_def trim_def
    by (metis hd_dropWhile last_rev rev_is_Nil_conv)
  have lead: "dropWhile is_space ?t = ?t"
  proof (cases ?t)
    case Nil
    then show ?thesis by simp
  next
    case (Cons a as)
    then have da: "?d = a # (as @ z)" using split by simp
    have "?d \<noteq> []" by (simp only: da) simp
    then have "\<not> is_space (hd ?d)" by (rule hd_dropWhile)
    then have "\<not> is_space a" by (simp add: da)
    then show ?thesis using Cons by simp
  qed
  have "collapse ?t = spec_unwords (spec_words ?t)"
    using collapse_words [OF clean] by (simp only: lead)
  also have "spec_words ?t = spec_words (?t @ z)"
    using spec_words_trailing [OF z] by simp
  also have "\<dots> = spec_words s"
    using spec_words_dropWhile [of s] by (simp only: split [symmetric])
  finally show ?thesis
    by (simp add: normalizer_def spec_normal_text_def)
qed

subsection \<open>The query finds the elements that carry the text\<close>

lemma child_texts: "concat (map child_text cs) = concat [t. TextNode t \<leftarrow> cs]"
  by (induction cs) (auto split: node.splits)

lemma getNodeText_own_text: "getNodeText n = own_text n"
  by (cases n) (auto simp add: button_like_def child_texts split: option.splits)

lemma matches_carries:
  "(\<not> ignored (Element tag attrs cs) \<and> normalizer (getNodeText (Element tag attrs cs)) = text)
     = carries (Element tag attrs cs) text"
  by (auto simp add: ignored_def normalizer_spec getNodeText_own_text
      simp del: own_text.simps getNodeText.simps)

lemma elements_are_elements: "e \<in> set (elements d) \<Longrightarrow> \<exists>tag attrs cs. e = Element tag attrs cs"
  by (induction d rule: elements.induct) auto

lemma queryAllByText_carriers: "queryAllByText d text = carriers d text"
proof -
  have "filter (\<lambda>n. normalizer (getNodeText n) = text) (filter (\<lambda>n. \<not> ignored n) (elements d))
      = filter (\<lambda>n. \<not> ignored n \<and> normalizer (getNodeText n) = text) (elements d)"
    by (simp add: conj_commute)
  also have "\<dots> = filter (\<lambda>e. carries e text) (elements d)"
  proof (rule filter_cong [OF refl])
    fix e assume "e \<in> set (elements d)"
    then obtain tag attrs cs where "e = Element tag attrs cs"
      using elements_are_elements by blast
    then show "(\<not> ignored e \<and> normalizer (getNodeText e) = text) = carries e text"
      by (simp only: matches_carries)
  qed
  finally show ?thesis by (simp add: queryAllByText_def carriers_def)
qed

lemma render_fst:
  "fst (render ui g) = (case fst (ui [] g) of Inl e \<Rightarrow> Inl e | Inr n \<Rightarrow> Inr (document n))"
  by (simp add: render_def split: prod.splits sum.splits)

lemma renders_cases:
  "renders ui g =
     (case fst (ui [] g) of
        Inl e \<Rightarrow> Failed e
      | Inr n \<Rightarrow> (case carriers (document n) (js ''Navbar'') of
                    [] \<Rightarrow> Failed (ElementNotFound (js ''Navbar''))
                  | [e] \<Rightarrow> Passed
                  | e # f # es \<Rightarrow> Failed (MultipleElementsFound (js ''Navbar''))))"
  by (simp add: renders_def render_fst getByText_def queryAllByText_carriers toBeTruthy_def
      split: sum.splits list.splits)

lemma export_manifest_index:
  "export_manifest index_ts = [(''Navbar'', [''lib'', ''components'', ''navbar'', ''navbar''])]"
  by (simp add: export_manifest_def index_ts_def binding_def resolve_def step_def
      List.map_filter_simps)

lemma meta_component: "component meta = Some [''lib'', ''components'', ''navbar'', ''navbar'']"
  by (simp add: meta_def navbar_stories_def binding_def resolve_def step_def)

subsection \<open>The test on the other components\<close>

lemma q_two:
  "queryAllByText (document (Element ''div'' []
            [Element ''p'' [] [TextNode (js ''Navbar'')],
             Element ''p'' [] [TextNode (js ''Navbar'')]])) (js ''Navbar'')
   = [Element ''p'' [] [TextNode (js ''Navbar'')], Element ''p'' [] [TextNode (js ''Navbar'')]]"
  by (simp add: queryAllByText_def document_def ascii_lower_def ignored_def normalizer_def trim_def
      is_space_def js_def)

lemma q_spaced:
  "queryAllByText (document (Element ''H1'' [] [TextNode (js ''  Navbar'' @ [0x00A0])])) (js ''Navbar'')
   = [Element ''h1'' [] [TextNode (js ''  Navbar'' @ [0x00A0])]]"
  by (simp add: queryAllByText_def document_def ascii_lower_def ignored_def normalizer_def trim_def
      is_space_def js_def)

lemma q_split:
  "queryAllByText (document (Element ''div'' []
            [TextNode (js ''Nav''), Element ''b'' [] [TextNode (js ''x'')], TextNode (js ''bar'')])) (js ''Navbar'')
   = [Element ''div'' []
            [TextNode (js ''Nav''), Element ''b'' [] [TextNode (js ''x'')], TextNode (js ''bar'')]]"
  by (simp add: queryAllByText_def document_def ascii_lower_def ignored_def normalizer_def trim_def
      is_space_def js_def)

lemma q_longer:
  "queryAllByText (document (Element ''div'' [] [TextNode (js ''Navbar menu'')])) (js ''Navbar'') = []"
  by (simp add: queryAllByText_def document_def ascii_lower_def ignored_def normalizer_def trim_def
      is_space_def js_def)

lemma split_text_passes:
  "renders split_text [] = Passed \<and> \<not> text_present (fst (render split_text [])) (js ''Navbar'')"
proof -
  have "renders split_text [] = Passed"
    by (simp add: renders_def render_def split_text_def getByText_def q_split toBeTruthy_def)
  moreover have "\<not> text_present (fst (render split_text [])) (js ''Navbar'')"
    by (simp add: text_present_def render_def split_text_def document_def js_def sublist_Cons_right)
  ultimately show ?thesis by simp
qed

lemma longer_text_fails:
  "text_present (fst (render longer_text [])) (js ''Navbar'')
   \<and> renders longer_text [] = Failed (ElementNotFound (js ''Navbar''))"
proof -
  have "renders longer_text [] = Failed (ElementNotFound (js ''Navbar''))"
    by (simp add: renders_def render_def longer_text_def getByText_def q_longer)
  moreover have "text_present (fst (render longer_text [])) (js ''Navbar'')"
    by (simp add: text_present_def render_def longer_text_def document_def js_def sublist_Cons_right)
  ultimately show ?thesis by simp
qed

section \<open>The unit test\<close>

text \<open>
  C1, as it is written: the test passes if and only if the rendered output contains the
  text \<open>Navbar\<close>.  With two paragraphs that each say \<open>Navbar\<close> the rendered output
  contains the text and the test fails, because the query refuses more than one match.
\<close>

theorem renders_iff_text_counterexample:
  "text_present (fst (render two_paragraphs [])) (js ''Navbar'')
   \<and> renders two_paragraphs [] = Failed (MultipleElementsFound (js ''Navbar''))
   \<and> \<not> (renders two_paragraphs [] = Passed
           \<longleftrightarrow> text_present (fst (render two_paragraphs [])) (js ''Navbar''))"
proof -
  have f: "renders two_paragraphs [] = Failed (MultipleElementsFound (js ''Navbar''))"
    by (simp add: renders_def render_def two_paragraphs_def getByText_def q_two)
  have p: "text_present (fst (render two_paragraphs [])) (js ''Navbar'')"
    by (simp add: text_present_def render_def two_paragraphs_def document_def js_def
        sublist_Cons_right)
  show ?thesis using f p by simp
qed

text \<open>
  C1, amended.  The test calls the component with the empty props, and it passes if and
  only if the component returns and exactly one element of the rendered document carries
  the text \<open>Navbar\<close>.  When no element carries it the test fails with the query's
  element-not-found error, when two or more carry it the test fails with the
  multiple-elements error, and when the component throws the test fails with what was
  thrown.  For the shipped \<open>Navbar\<close> no element carries the text, the rendered text does
  not contain it, and the test fails with element-not-found.
\<close>

theorem renders_iff_one_carrier:
  "(renders ui g = Passed
      \<longleftrightarrow> (\<exists>n. fst (ui [] g) = Inr n \<and> length (carriers (document n) (js ''Navbar'')) = 1))
   \<and> (fst (ui1 [] g1) = Inr n1 \<and> carriers (document n1) (js ''Navbar'') = []
        \<longrightarrow> renders ui1 g1 = Failed (ElementNotFound (js ''Navbar'')))
   \<and> (fst (ui2 [] g2) = Inr n2 \<and> 2 \<le> length (carriers (document n2) (js ''Navbar''))
        \<longrightarrow> renders ui2 g2 = Failed (MultipleElementsFound (js ''Navbar'')))
   \<and> (fst (ui3 [] g3) = Inl e \<longrightarrow> renders ui3 g3 = Failed e)
   \<and> carriers (document (Element ''div'' [] [])) (js ''Navbar'') = []
   \<and> \<not> text_present (fst (render Navbar g)) (js ''Navbar'')
   \<and> Navbar_test g = Failed (ElementNotFound (js ''Navbar''))"
proof -
  have one: "renders ui g = Passed
      \<longleftrightarrow> (\<exists>n. fst (ui [] g) = Inr n \<and> length (carriers (document n) (js ''Navbar'')) = 1)"
    by (auto simp add: renders_cases split: sum.splits list.splits)
  have none: "renders ui1 g1 = Failed (ElementNotFound (js ''Navbar''))"
    if "fst (ui1 [] g1) = Inr n1 \<and> carriers (document n1) (js ''Navbar'') = []"
    using that by (simp add: renders_cases)
  have many: "renders ui2 g2 = Failed (MultipleElementsFound (js ''Navbar''))"
    if "fst (ui2 [] g2) = Inr n2 \<and> 2 \<le> length (carriers (document n2) (js ''Navbar''))"
    using that by (auto simp add: renders_cases split: list.splits)
  have thrown: "renders ui3 g3 = Failed e" if "fst (ui3 [] g3) = Inl e"
    using that by (simp add: renders_cases)
  have empty: "carriers (document (Element ''div'' [] [])) (js ''Navbar'') = []"
    using query_Navbar by (simp add: queryAllByText_carriers document_empty_div)
  have absent: "\<not> text_present (fst (render Navbar g)) (js ''Navbar'')"
    by (simp add: text_present_def render_Navbar js_def)
  have shipped: "Navbar_test g = Failed (ElementNotFound (js ''Navbar''))"
    using empty by (simp add: Navbar_test_def renders_cases Navbar_def)
  show ?thesis
    using one none many thrown empty absent shipped by blast
qed

text \<open>
  The same at four components: the heading with white space around the word passes, the
  shipped \<open>Navbar\<close> has no element with the text, the two paragraphs have two, and the
  last one throws.
\<close>

theorem renders_iff_one_carrier_witness:
  "renders spaced_heading [] = Passed
   \<and> fst (Navbar [] []) = Inr (Element ''div'' [] [])
   \<and> carriers (document (Element ''div'' [] [])) (js ''Navbar'') = []
   \<and> renders Navbar [] = Failed (ElementNotFound (js ''Navbar''))
   \<and> 2 \<le> length (carriers (document (Element ''div'' []
            [Element ''p'' [] [TextNode (js ''Navbar'')],
             Element ''p'' [] [TextNode (js ''Navbar'')]])) (js ''Navbar''))
   \<and> renders two_paragraphs [] = Failed (MultipleElementsFound (js ''Navbar''))
   \<and> fst (throwing [] []) = Inl (Thrown (js ''boom''))
   \<and> renders throwing [] = Failed (Thrown (js ''boom''))"
proof -
  let ?h = "Element ''H1'' [] [TextNode (js ''  Navbar'' @ [0x00A0])]"
  let ?d = "Element ''div'' [] []"
  let ?t = "Element ''div'' [] [Element ''p'' [] [TextNode (js ''Navbar'')],
                                Element ''p'' [] [TextNode (js ''Navbar'')]]"
  have h: "fst (spaced_heading [] []) = Inr ?h \<and> length (carriers (document ?h) (js ''Navbar'')) = 1"
    using q_spaced by (simp add: spaced_heading_def queryAllByText_carriers)
  have d: "fst (Navbar [] []) = Inr ?d \<and> carriers (document ?d) (js ''Navbar'') = []"
    using query_Navbar by (simp add: Navbar_def queryAllByText_carriers document_empty_div)
  have t: "fst (two_paragraphs [] []) = Inr ?t \<and> 2 \<le> length (carriers (document ?t) (js ''Navbar''))"
    using q_two by (simp add: two_paragraphs_def queryAllByText_carriers)
  have x: "fst (throwing [] []) = Inl (Thrown (js ''boom''))"
    by (simp add: throwing_def)
  show ?thesis
    using h d t x
      renders_iff_one_carrier [of spaced_heading "[]" Navbar "[]" ?d two_paragraphs "[]" ?t
        throwing "[]" "Thrown (js ''boom'')"]
    by blast
qed

section \<open>The component\<close>

text \<open>
  C2.  Whatever the props and the environment, \<open>Navbar\<close> returns the one element
  \<open>div\<close> with no attribute and no child; it is the only element of its tree and its text
  content is empty.  The document the test renders is the body, the container and that
  \<open>div\<close>; its text content is empty, \<open>Navbar\<close> is no part of it, and no element carries
  the text \<open>Navbar\<close>.
\<close>

theorem Navbar_empty_div:
  "fst (Navbar p g) = Inr (Element ''div'' [] [])
   \<and> elements (Element ''div'' [] []) = [Element ''div'' [] []]
   \<and> textContent (Element ''div'' [] []) = []
   \<and> fst (render Navbar g) = Inr (Element ''body'' [] [Element ''div'' [] [Element ''div'' [] []]])
   \<and> textContent (Element ''body'' [] [Element ''div'' [] [Element ''div'' [] []]]) = []
   \<and> \<not> sublist (js ''Navbar'') (textContent (Element ''body'' [] [Element ''div'' [] [Element ''div'' [] []]]))
   \<and> queryAllByText (Element ''body'' [] [Element ''div'' [] [Element ''div'' [] []]]) (js ''Navbar'') = []"
  by (simp add: Navbar_def render_Navbar query_Navbar) (simp add: js_def)

text \<open>
  C3.  Two calls of \<open>Navbar\<close>, with any props and in any environment, return the same
  output, and a call leaves the environment as it found it; the same holds for rendering
  it into a document.
\<close>

theorem Navbar_pure:
  "fst (Navbar p g) = fst (Navbar p' g') \<and> snd (Navbar p g) = g
   \<and> fst (render Navbar g) = fst (render Navbar g') \<and> snd (render Navbar g) = g"
  by (simp add: Navbar_def render_Navbar)

text \<open>
  C5.  A call of \<open>Navbar\<close> returns an element and never an error, and so does rendering
  it into a document.  The \<open>Default\<close> story has no args, and the catalog renders it to the
  empty \<open>div\<close> without an error, the environment unchanged.
\<close>

theorem Navbar_never_throws:
  "(\<exists>n. fst (Navbar p g) = Inr n)
   \<and> (\<exists>d. fst (render Navbar g) = Inr d)
   \<and> story_args Default = []
   \<and> render_story meta Default g = (Inr (Element ''div'' [] []), g)"
  by (simp add: Navbar_def render_Navbar story_args_def Default_def render_story_def
      meta_component lib_components_def)

section \<open>The export manifest\<close>

text \<open>
  C4.  The public names of lib/index.ts are exactly \<open>Navbar\<close>; every entry of the manifest
  stands for a module of the component tree; a consumer importing \<open>Navbar\<close> gets the
  component, and importing any other name fails with export-not-found.
\<close>

theorem export_manifest_exact:
  "map fst (export_manifest index_ts) = [''Navbar'']
   \<and> (\<forall>(public, p) \<in> set (export_manifest index_ts). \<exists>c. map_of lib_components p = Some c)
   \<and> import_named ''Navbar'' = Inr Navbar
   \<and> (other \<noteq> ''Navbar'' \<longrightarrow> import_named other = Inl (ExportNotFound other))"
  by (simp add: export_manifest_index import_named_def lib_components_def)

text \<open>
  The same at the entry \<open>Navbar\<close> of the manifest and at the name \<open>Footer\<close>, which is not
  exported.
\<close>

theorem export_manifest_exact_witness:
  "(''Navbar'', [''lib'', ''components'', ''navbar'', ''navbar'']) \<in> set (export_manifest index_ts)
   \<and> (\<exists>c. map_of lib_components [''lib'', ''components'', ''navbar'', ''navbar''] = Some c)
   \<and> ''Footer'' \<noteq> ''Navbar''
   \<and> import_named ''Footer'' = Inl (ExportNotFound ''Footer'')"
  using export_manifest_exact [of "''Footer''"]
  by (simp add: export_manifest_index lib_components_def)

section \<open>The catalog entry\<close>

text \<open>
  C6.  The catalog entry has the title \<open>Navbar Example\<close> and a component reference, and
  its variants are exactly one, named \<open>Default\<close>, which is the empty object.
\<close>

theorem catalog_entry_shape:
  "title meta = ''Navbar Example''
   \<and> component meta = Some [''lib'', ''components'', ''navbar'', ''navbar'']
   \<and> map fst stories = [''Default'']
   \<and> map_of stories ''Default'' = Some []
   \<and> Default = []"
  by (simp add: meta_component stories_def navbar_stories_consts_def Default_def
      List.map_filter_simps) (simp add: meta_def navbar_stories_def)

text \<open>
  C7.  The component reference of the catalog entry resolves to the module of the
  component tree that defines \<open>Navbar\<close>, and the export manifest has an entry, \<open>Navbar\<close>,
  for that same module.
\<close>

theorem catalog_component_exported:
  "component meta = Some [''lib'', ''components'', ''navbar'', ''navbar'']
   \<and> map_of lib_components [''lib'', ''components'', ''navbar'', ''navbar''] = Some Navbar
   \<and> (''Navbar'', [''lib'', ''components'', ''navbar'', ''navbar'']) \<in> set (export_manifest index_ts)
   \<and> map_option snd (find (\<lambda>(public, p). Some p = component meta) (export_manifest index_ts))
       = component meta"
  by (simp add: meta_component export_manifest_index lib_components_def)

section \<open>The build configuration and the package manifest\<close>

text \<open>
  C8.  Whatever the directory of the configuration file, the library entry is
  lib/index.ts below it; the file name for a format is \<open>index.\<close>, the format, \<open>.js\<close>;
  there are two output formats, giving index.es.js and index.umd.js; the externals are
  react, react-dom and tailwindcss; the CSS-injecting plugin and the declaration plugin
  with \<open>rollupTypes\<close> true are among the plugins.
\<close>

theorem vite_config_build:
  "entry (lib (build (vite_config dirname))) = dirname @ [''lib'', ''index.ts'']
   \<and> fileName (lib (build (vite_config dirname))) format = ''index.'' @ format @ ''.js''
   \<and> length (output_formats (vite_config dirname)) = 2
   \<and> output_file_names (vite_config dirname) = [''index.es.js'', ''index.umd.js'']
   \<and> external (rollupOptions (build (vite_config dirname))) = [''react'', ''react-dom'', ''tailwindcss'']
   \<and> cssInjectedByJsPlugin \<in> set (plugins (vite_config dirname))
   \<and> dts \<lparr> rollupTypes = True \<rparr> \<in> set (plugins (vite_config dirname))"
  by (simp add: vite_config_def resolve_lib_index output_file_names_def output_formats_def)

text \<open>
  C9.  The library name of the build configuration is \<open>react-beautiful-timeline\<close>, the
  name of the package manifest is \<open>dilo-library\<close>, and the two differ.
\<close>

theorem library_names_disagree:
  "name (lib (build (vite_config dirname))) = ''react-beautiful-timeline''
   \<and> pkg_name package_json = ''dilo-library''
   \<and> name (lib (build (vite_config dirname))) \<noteq> pkg_name package_json"
  by (simp add: vite_config_def package_json_def)

text \<open>
  C10.  The package manifest has \<open>private\<close> true, while the last command of the
  instructions is \<^verbatim>\<open>npm publish\<close>, which refuses this manifest.
\<close>

theorem package_private:
  "pkg_private package_json = True
   \<and> last readme_commands = ''npm publish''
   \<and> npm_publish package_json = Inl EPRIVATE"
  by (simp add: package_json_def readme_commands_def npm_publish_def)

end
